theory Spec2Isabelle
  imports Complex_Main "HOL-Library.Sublist"
begin

section \<open>JavaScript strings\<close>

text \<open>
  A JavaScript string is a sequence of UTF-16 code units. The client only compares
  strings with ASCII literals, cuts prefixes and suffixes off and counts code units, so
  a string is modelled as a \<open>char list\<close> whose elements stand for code units.
  \<open>String.prototype.startsWith\<close> is the prefix test; a regular expression anchored by
  \<open>$\<close> (no \<open>m\<close> flag) matches at the very end of the input only.
\<close>

definition startsWith :: "string \<Rightarrow> string \<Rightarrow> bool" where
  "startsWith s p = prefix p s"

definition endsWith :: "string \<Rightarrow> string \<Rightarrow> bool" where
  "endsWith s p = suffix p s"

section \<open>URL normalisation (index.ts, lines 110-122)\<close>

text \<open>
  \<open>url.replace(/^(https?:\/\/)?(www\.)?/, '')\<close>: both groups are optional and greedy, the
  expression is anchored at the start and has no \<open>g\<close> flag, so it removes one leading
  \<open>http://\<close> or \<open>https://\<close> when there is one, and then one \<open>www.\<close> when the rest
  starts with it.
\<close>

definition strip_scheme :: "string \<Rightarrow> string" where
  "strip_scheme s =
     (if startsWith s ''https://'' then drop 8 s
      else if startsWith s ''http://'' then drop 7 s
      else s)"

definition strip_www :: "string \<Rightarrow> string" where
  "strip_www s = (if startsWith s ''www.'' then drop 4 s else s)"

definition strip_prefixes :: "string \<Rightarrow> string" where
  "strip_prefixes s = strip_www (strip_scheme s)"

text \<open>\<open>.replace(/\/$/, '')\<close>: one \<open>/\<close> is removed when it is the last code unit.\<close>

definition strip_trailing_slash :: "string \<Rightarrow> string" where
  "strip_trailing_slash s = (if endsWith s ''/'' then butlast s else s)"

definition normalizeURL :: "string \<Rightarrow> string" where
  "normalizeURL url =
     (let normalized = strip_trailing_slash (strip_prefixes url)
      in if \<not> startsWith normalized ''http://'' \<and> \<not> startsWith normalized ''https://''
         then ''https://'' @ normalized
         else normalized)"

text \<open>The three properties the specification asks of a normalised base URL.\<close>

definition www_after_scheme :: "string \<Rightarrow> bool" where
  "www_after_scheme s = (startsWith s ''https://www.'' \<or> startsWith s ''http://www.'')"

definition well_normalized :: "string \<Rightarrow> bool" where
  "well_normalized s =
     (startsWith s ''https://'' \<and> \<not> endsWith s ''/'' \<and> \<not> www_after_scheme s)"

text \<open>
  A host part that the two replacements leave alone: not empty, no scheme and no
  \<open>www.\<close> in front, no slash at the end.
\<close>

definition bare_host :: "string \<Rightarrow> bool" where
  "bare_host h =
     (h \<noteq> [] \<and> \<not> startsWith h ''http://'' \<and> \<not> startsWith h ''https://'' \<and>
      \<not> startsWith h ''www.'' \<and> \<not> endsWith h ''/'')"

section \<open>JavaScript values\<close>

text \<open>
  Response bodies and configuration values are untyped at run time (\<open>any\<close>). A number
  is an IEEE double: the client never computes with one, it only tests it for
  truthiness and hands it on, so the finite doubles are embedded in the rationals
  (\<open>-0\<close> is \<open>Finite 0\<close>), next to \<open>NaN\<close> and the two infinities.
\<close>

datatype jsnumber = NaN | PosInfinity | NegInfinity | Finite rat

datatype jsval =
    JUndefined
  | JNull
  | JBool bool
  | JNum jsnumber
  | JStr string
  | JArr "jsval list"
  | JObj "(string \<times> jsval) list"

text \<open>
  An object is the list of its own properties, the first entry of a key being the one
  that counts. \<open>ToBoolean\<close>: \<open>undefined\<close>, \<open>null\<close>, \<open>false\<close>, \<open>0\<close>, \<open>NaN\<close> and the empty
  string are falsy, every other value (every object and array too) is truthy.
\<close>

definition falsy_number :: "jsnumber \<Rightarrow> bool" where
  "falsy_number n = (n = NaN \<or> n = Finite 0)"

fun truthy :: "jsval \<Rightarrow> bool" where
  "truthy JUndefined = False"
| "truthy JNull = False"
| "truthy (JBool b) = b"
| "truthy (JNum n) = (\<not> falsy_number n)"
| "truthy (JStr s) = (s \<noteq> [])"
| "truthy (JArr xs) = True"
| "truthy (JObj kvs) = True"

text \<open>\<open>a || b\<close>, for a right operand whose evaluation has no effect.\<close>

definition js_or :: "jsval \<Rightarrow> jsval \<Rightarrow> jsval" where
  "js_or a b = (if truthy a then a else b)"

text \<open>
  \<open>v.k\<close> for the property names the client reads (\<open>distanceKm\<close>, \<open>data\<close>, \<open>error\<close>,
  \<open>message\<close>), none of which is a built-in property of a primitive or an array: reading
  a property of \<open>undefined\<close> or \<open>null\<close> throws a TypeError (\<open>None\<close>), a missing property
  reads as \<open>undefined\<close>.
\<close>

fun get_prop :: "jsval \<Rightarrow> string \<Rightarrow> jsval option" where
  "get_prop JUndefined k = None"
| "get_prop JNull k = None"
| "get_prop (JObj kvs) k = Some (case map_of kvs k of None \<Rightarrow> JUndefined | Some v \<Rightarrow> v)"
| "get_prop v k = Some JUndefined"

text \<open>\<open>v?.k\<close>: \<open>undefined\<close> where \<open>v.k\<close> would throw.\<close>

definition opt_chain :: "jsval \<Rightarrow> string \<Rightarrow> jsval" where
  "opt_chain v k = (case get_prop v k of None \<Rightarrow> JUndefined | Some x \<Rightarrow> x)"

text \<open>
  \<open>ToString\<close>, applied by template literals and by the \<open>Error\<close> constructor to its
  message: the identity on strings. How the runtime prints any other value (numbers
  above all) is a parameter \<open>render\<close> of the model.
\<close>

definition toStringJS :: "(jsval \<Rightarrow> string) \<Rightarrow> jsval \<Rightarrow> string" where
  "toStringJS render v = (case v of JStr s \<Rightarrow> s | _ \<Rightarrow> render v)"

section \<open>Client configuration (index.ts, lines 4-10 and 49-57)\<close>

text \<open>An optional field that the caller left out (or passed as \<open>undefined\<close>) is \<open>None\<close>.\<close>

record CDSClientConfig =
  baseURL :: string
  username :: "string option"
  password :: "string option"
  timeout :: "jsnumber option"
  retries :: "jsnumber option"

text \<open>\<open>this.config\<close>, of type \<open>Required<CDSClientConfig>\<close>.\<close>

record RequiredConfig =
  config_baseURL :: string
  config_username :: string
  config_password :: string
  config_timeout :: jsnumber
  config_retries :: jsnumber

text \<open>\<open>s || ''\<close> and \<open>n || d\<close> on an optional string and an optional number.\<close>

definition string_or :: "string option \<Rightarrow> string \<Rightarrow> string" where
  "string_or s d = (case s of None \<Rightarrow> d | Some x \<Rightarrow> if x = [] then d else x)"

definition number_or :: "jsnumber option \<Rightarrow> jsnumber \<Rightarrow> jsnumber" where
  "number_or n d = (case n of None \<Rightarrow> d | Some x \<Rightarrow> if falsy_number x then d else x)"

definition constructor_config :: "CDSClientConfig \<Rightarrow> RequiredConfig" where
  "constructor_config config =
     \<lparr> config_baseURL = normalizeURL (baseURL config),
       config_username = string_or (username config) [],
       config_password = string_or (password config) [],
       config_timeout = number_or (timeout config) (Finite 30000),
       config_retries = number_or (retries config) (Finite 3) \<rparr>"

section \<open>Errors (index.ts, lines 34-43 and 127-172)\<close>

record http_response =
  status :: nat
  data :: jsval

text \<open>The status of a response as the JavaScript number that \<open>handleError\<close> reads.\<close>

definition status_value :: "nat \<Rightarrow> jsval" where
  "status_value n = JNum (Finite (of_nat n))"

text \<open>
  What \<open>handleError\<close> reads of an \<open>AxiosError\<close>: the response when one arrived, the
  platform's request object (of an opaque type \<open>'q\<close>) when the request was sent, and the
  transport's message.
\<close>

record 'q AxiosError =
  err_response :: "http_response option"
  err_request :: "'q option"
  err_message :: string

text \<open>
  The second and third field of a \<open>CDSError\<close> hold whatever \<open>handleError\<close> puts there at
  run time: the status it read (\<open>undefined\<close> when there is none), and a response body or
  a request object. A field that was not given is \<open>undefined\<close>.
\<close>

datatype 'q attached = Body jsval | RequestObject 'q

record 'q CDSError =
  message :: string
  statusCode :: jsval
  response :: "'q attached"

text \<open>\<open>new CDSError(message)\<close>, both optional arguments left out.\<close>

definition new_CDSError :: "string \<Rightarrow> 'q CDSError" where
  "new_CDSError m = \<lparr> message = m, statusCode = JUndefined, response = Body JUndefined \<rparr>"

text \<open>
  Line 133: \<open>data?.error || data?.message || error.message\<close>, for the body \<open>d\<close> and the
  text \<open>m\<close> of \<open>error.message\<close>.
\<close>

definition originalMessage :: "string \<Rightarrow> jsval \<Rightarrow> jsval" where
  "originalMessage m d =
     js_or (js_or (opt_chain d ''error'') (opt_chain d ''message'')) (JStr m)"

text \<open>
  The \<open>switch\<close> of lines 136-158 (its cases compare with \<open>===\<close>), followed by the
  conversion of the message to a string (by the template literal for 400, by the
  \<open>Error\<close> constructor otherwise).
\<close>

definition statusMessage :: "(jsval \<Rightarrow> string) \<Rightarrow> jsval \<Rightarrow> jsval \<Rightarrow> string" where
  "statusMessage render st msg =
     (if st = JNum (Finite 400) then ''Invalid request: '' @ toStringJS render msg
      else if st = JNum (Finite 401) then ''Authentication failed. Check your credentials.''
      else if st = JNum (Finite 403) then ''Access forbidden. You do not have permission.''
      else if st = JNum (Finite 404) then ''Resource not found. Check the endpoint URL.''
      else if st = JNum (Finite 429) then ''Rate limit exceeded. Please try again later.''
      else if st = JNum (Finite 500) \<or> st = JNum (Finite 502) \<or> st = JNum (Finite 503) \<or>
              st = JNum (Finite 504)
        then ''Server error. Please try again later.''
      else toStringJS render msg)"

text \<open>
  Lines 130-160, the branch taken when \<open>error.response\<close> is truthy: \<open>st\<close> is what
  \<open>error.response.status\<close> reads, \<open>d\<close> what \<open>error.response.data\<close> reads, \<open>m\<close> the text of
  \<open>error.message\<close>.
\<close>

definition classifyResponse :: "(jsval \<Rightarrow> string) \<Rightarrow> jsval \<Rightarrow> jsval \<Rightarrow> string \<Rightarrow> 'q CDSError" where
  "classifyResponse render st d m =
     (let msg = originalMessage m d
      in \<lparr> message = statusMessage render st msg, statusCode = st, response = Body d \<rparr>)"

text \<open>\<open>handleError\<close> applied to the \<open>AxiosError\<close> of its signature.\<close>

definition handleError :: "(jsval \<Rightarrow> string) \<Rightarrow> 'q AxiosError \<Rightarrow> 'q CDSError" where
  "handleError render error =
     (case err_response error of
        Some r \<Rightarrow> classifyResponse render (status_value (status r)) (data r) (err_message error)
      | None \<Rightarrow>
          (case err_request error of
             Some q \<Rightarrow>
               \<lparr> message = ''No response from server. Check your network connection.'',
                 statusCode = JUndefined, response = RequestObject q \<rparr>
           | None \<Rightarrow> new_CDSError (err_message error)))"

text \<open>
  The same lines 127-172 when the value handed to \<open>handleError\<close> is a \<open>CDSError\<close>, which
  the type annotation does not prevent at run time. Then \<open>error.response\<close> is the third
  field of that \<open>CDSError\<close> (the body or the request object stored by an earlier
  \<open>handleError\<close>), \<open>error.request\<close> is \<open>undefined\<close>, since a \<open>CDSError\<close> has no such
  property, and \<open>error.message\<close> is its message. A request object is truthy; what its
  properties \<open>status\<close> and \<open>data\<close> read depends on the platform and is the parameter
  \<open>request_prop\<close>.
\<close>

definition handleError_CDSError ::
  "(jsval \<Rightarrow> string) \<Rightarrow> ('q \<Rightarrow> string \<Rightarrow> jsval) \<Rightarrow> 'q CDSError \<Rightarrow> 'q CDSError" where
  "handleError_CDSError render request_prop error =
     (case response error of
        Body b \<Rightarrow>
          if truthy b
          then classifyResponse render (opt_chain b ''status'') (opt_chain b ''data'') (message error)
          else new_CDSError (message error)
      | RequestObject q \<Rightarrow>
          classifyResponse render (request_prop q ''status'') (request_prop q ''data'')
            (message error))"

section \<open>Retry condition (index.ts, lines 81-92)\<close>

text \<open>
  \<open>axiosRetry.isNetworkOrIdempotentRequestError\<close> belongs to the retry library and is a
  parameter; the list of statuses is the client's own.
\<close>

definition retryableStatuses :: "nat list" where
  "retryableStatuses = [408, 429, 500, 502, 503, 504]"

definition retryCondition :: "('q AxiosError \<Rightarrow> bool) \<Rightarrow> 'q AxiosError \<Rightarrow> bool" where
  "retryCondition isNetworkOrIdempotentRequestError error =
     (if isNetworkOrIdempotentRequestError error then True
      else (case err_response error of
              Some r \<Rightarrow> status r \<in> set retryableStatuses
            | None \<Rightarrow> False))"

section \<open>The axios instance (index.ts, lines 59-104)\<close>

datatype request = GET string "(string \<times> string) list" | POST string jsval

fun request_url :: "request \<Rightarrow> string" where
  "request_url (GET p params) = p"
| "request_url (POST p body) = p"

text \<open>
  What a call does outside the client, in order: a request put on the wire, the warning
  of \<open>onRetry\<close> (lines 93-95, with the retry count and the URL), and a pause of the retry
  plug-in, with its length in milliseconds.
\<close>

datatype event = Sent request | Warned nat string | Waited rat

fun sends :: "event list \<Rightarrow> request list" where
  "sends [] = []"
| "sends (Sent r # es) = r # sends es"
| "sends (Warned n u # es) = sends es"
| "sends (Waited d # es) = sends es"

fun waits :: "event list \<Rightarrow> rat list" where
  "waits [] = []"
| "waits (Sent r # es) = waits es"
| "waits (Warned n u # es) = waits es"
| "waits (Waited d # es) = d # waits es"

text \<open>
  Modelled from the spec: \<open>axiosRetry.exponentialDelay\<close>, a function of the retry library
  that is not among the sources. The specification gives the delay before retry \<open>n\<close> as
  the base delay times \<open>2^(n - 1)\<close> and leaves jitter optional; the jitter of retry \<open>n\<close> is
  the fraction \<open>jitter n\<close> of that delay, added to it.
\<close>

definition exponentialDelay :: "rat \<Rightarrow> (nat \<Rightarrow> rat) \<Rightarrow> nat \<Rightarrow> rat" where
  "exponentialDelay base jitter n = base * 2 ^ (n - 1) * (1 + jitter n)"

text \<open>
  Everything the instance depends on and the sources do not fix: how the runtime prints
  a value, what a request object's properties read, the library's own retry test, the
  retry count given to the plug-in (\<open>this.config.retries\<close>, an integer in the
  specification), the base delay and the jitter, and the transport with the servers
  behind it, which answers an attempt, given everything that happened up to and
  including its sending, with a 2xx response or with an \<open>AxiosError\<close>.
\<close>

record 'q environment =
  env_render :: "jsval \<Rightarrow> string"
  env_request_prop :: "'q \<Rightarrow> string \<Rightarrow> jsval"
  env_lib :: "'q AxiosError \<Rightarrow> bool"
  env_retries :: nat
  env_base :: rat
  env_jitter :: "nat \<Rightarrow> rat"
  env_server :: "event list \<Rightarrow> 'q AxiosError + http_response"

text \<open>
  Modelled from the spec: the loop of the retry plug-in (\<open>axiosRetry\<close>, lines 78-96 install
  it), which is not among the sources. One run of a request through the instance, at
  retry count \<open>retryCount\<close>: the attempt is sent; a response passes both interceptors; an
  error is retried while fewer than \<open>retries\<close> retries were made and \<open>retryCondition\<close>
  (lines 81-92) holds of it, after the warning of \<open>onRetry\<close> and the delay of
  \<open>exponentialDelay\<close>, one retry after the other. The plug-in retries by issuing the
  request again on the instance it is installed on, so the repeated request runs through
  both interceptors again: the error interceptor of lines 99-104, registered after the
  plug-in, turns the \<open>AxiosError\<close> of the last attempt into a \<open>CDSError\<close>, and each run that
  had asked for a retry then hands the \<open>CDSError\<close> thrown by the run inside it to the same
  interceptor, that is to \<open>handleError\<close>, once more.
\<close>

function issue ::
  "'q environment \<Rightarrow> nat \<Rightarrow> request \<Rightarrow> event list \<Rightarrow> ('q CDSError + http_response) \<times> event list" where
  "issue env retryCount req trace =
     (case env_server env (trace @ [Sent req]) of
        Inr r \<Rightarrow> (Inr r, trace @ [Sent req])
      | Inl e \<Rightarrow>
          if retryCount < env_retries env \<and> retryCondition (env_lib env) e
          then (case issue env (Suc retryCount) req
                       (trace @ [Sent req, Warned (Suc retryCount) (request_url req),
                          Waited (exponentialDelay (env_base env) (env_jitter env) (Suc retryCount))]) of
                  (Inr r, trace') \<Rightarrow> (Inr r, trace')
                | (Inl c, trace') \<Rightarrow>
                    (Inl (handleError_CDSError (env_render env) (env_request_prop env) c), trace'))
          else (Inl (handleError (env_render env) e), trace @ [Sent req]))"
  by pat_completeness auto
termination
  by (relation "measure (\<lambda>(env, retryCount, req, trace). env_retries env - retryCount)") auto

declare issue.simps [simp del]

section \<open>The operations (index.ts, lines 177-226)\<close>

text \<open>
  \<open>this.client\<close>, the axios instance with its retry plug-in and interceptor, is a
  parameter of every operation: given a request and the state \<open>'w\<close> of everything outside
  the client (the network, the servers, the clock), it ends with the \<open>CDSError\<close> thrown
  or with a 2xx response, and with the new outside state. An operation that returns the
  state it was given has not called the client.
\<close>

type_synonym ('q, 'w) client = "request \<Rightarrow> 'w \<Rightarrow> ('q CDSError + http_response) \<times> 'w"

text \<open>The instance that the constructor builds: a fresh request starts at retry count 0.\<close>

definition axios_client :: "'q environment \<Rightarrow> ('q, event list) client" where
  "axios_client env req trace = issue env 0 req trace"

text \<open>
  An environment for concrete runs: every attempt gets the same outcome from the
  transport, the library's retry test holds of the errors that carry no response, a
  request object has no \<open>status\<close> and no \<open>data\<close> property, a value that is not a string
  prints as the empty string, and the plug-in is given the default of 3 retries with a
  base delay of 100 ms and no jitter.
\<close>

definition fixed_outcome :: "'q AxiosError + http_response \<Rightarrow> 'q environment" where
  "fixed_outcome outcome =
     \<lparr> env_render = (\<lambda>v. []), env_request_prop = (\<lambda>q k. JUndefined),
       env_lib = (\<lambda>e. err_response e = None), env_retries = 3, env_base = 100,
       env_jitter = (\<lambda>n. 0), env_server = (\<lambda>t. outcome) \<rparr>"

text \<open>What an operation can throw: a \<open>CDSError\<close>, or the runtime's TypeError.\<close>

datatype 'q thrown = Thrown_CDSError "'q CDSError" | Thrown_TypeError

text \<open>
  An argument declared \<open>string\<close> is \<open>None\<close> when an untyped caller passes \<open>undefined\<close> or
  \<open>null\<close>, which \<open>!query\<close>, \<open>!city1Id\<close> and \<open>!city2Id\<close> reject as they reject the empty
  string. \<open>!query || query.length < 2\<close> looks at the length of a non-empty string only.
\<close>

definition getSuggestions ::
  "('q, 'w) client \<Rightarrow> string option \<Rightarrow> 'w \<Rightarrow> ('q thrown + jsval) \<times> 'w" where
  "getSuggestions client query w =
     (case query of
        None \<Rightarrow> (Inl (Thrown_CDSError (new_CDSError ''Query must be at least 2 characters long'')), w)
      | Some q \<Rightarrow>
          if q = [] \<or> length q < 2
          then (Inl (Thrown_CDSError (new_CDSError ''Query must be at least 2 characters long'')), w)
          else (case client (GET ''/suggestions'' [(''q'', q)]) w of
                  (Inl e, w') \<Rightarrow> (Inl (Thrown_CDSError e), w')
                | (Inr r, w') \<Rightarrow>
                    (case get_prop (data r) ''data'' of
                       None \<Rightarrow> (Inl Thrown_TypeError, w')
                     | Some v \<Rightarrow> (Inr (js_or v (data r)), w'))))"

text \<open>Line 205: \<open>data.distanceKm || data.data || data\<close>.\<close>

definition unwrapDistance :: "jsval \<Rightarrow> 'q thrown + jsval" where
  "unwrapDistance d =
     (case get_prop d ''distanceKm'' of
        None \<Rightarrow> Inl Thrown_TypeError
      | Some a \<Rightarrow>
          if truthy a then Inr a
          else (case get_prop d ''data'' of
                  None \<Rightarrow> Inl Thrown_TypeError
                | Some b \<Rightarrow> Inr (js_or b d)))"

definition calculateDistance ::
  "('q, 'w) client \<Rightarrow> string option \<Rightarrow> string option \<Rightarrow> 'w \<Rightarrow> ('q thrown + jsval) \<times> 'w" where
  "calculateDistance client city1Id city2Id w =
     (case (city1Id, city2Id) of
        (Some c1, Some c2) \<Rightarrow>
          if c1 = [] \<or> c2 = []
          then (Inl (Thrown_CDSError (new_CDSError ''Both city IDs are required'')), w)
          else (case client (POST ''/distance''
                        (JObj [(''City1'', JStr c1), (''City2'', JStr c2)])) w of
                  (Inl e, w') \<Rightarrow> (Inl (Thrown_CDSError e), w')
                | (Inr r, w') \<Rightarrow> (unwrapDistance (data r), w'))
      | _ \<Rightarrow> (Inl (Thrown_CDSError (new_CDSError ''Both city IDs are required'')), w))"

definition healthCheck :: "('q, 'w) client \<Rightarrow> 'w \<Rightarrow> ('q thrown + bool) \<times> 'w" where
  "healthCheck client w =
     (case client (GET ''/health_check'' []) w of
        (Inl e, w') \<Rightarrow> (Inr False, w')
      | (Inr r, w') \<Rightarrow> (Inr True, w'))"

definition getVersion :: "('q, 'w) client \<Rightarrow> 'w \<Rightarrow> ('q thrown + jsval) \<times> 'w" where
  "getVersion client w =
     (case client (GET ''/version'' []) w of
        (Inl e, w') \<Rightarrow> (Inl (Thrown_CDSError e), w')
      | (Inr r, w') \<Rightarrow> (Inr (data r), w'))"

section \<open>Properties of URL normalisation\<close>

lemma endsWith_slash: "endsWith s ''/'' \<longleftrightarrow> s \<noteq> [] \<and> last s = CHR ''/''"
  unfolding endsWith_def
  by (cases s rule: rev_cases) (auto simp: suffix_def)

lemma startsWith_Nil [simp]: "startsWith s []"
  by (simp add: startsWith_def)

lemma startsWith_Cons_Cons [simp]:
  "startsWith (x # s) (y # p) \<longleftrightarrow> x = y \<and> startsWith s p"
  by (auto simp add: startsWith_def)

lemma startsWith_Nil_Cons [simp]: "\<not> startsWith [] (y # p)"
  by (simp add: startsWith_def)

lemma startsWith_snoc: "startsWith (h @ [c]) p \<longleftrightarrow> startsWith h p \<or> p = h @ [c]"
  unfolding startsWith_def by (auto simp: prefix_snoc)

lemmas normalizeURL_defs =
  normalizeURL_def strip_trailing_slash_def strip_prefixes_def strip_www_def strip_scheme_def
  endsWith_slash

text \<open>A slash appended to a bare host does not complete a scheme or a \<open>www.\<close> prefix.\<close>

lemma bare_host_slash:
  assumes "bare_host h"
  shows "\<not> startsWith (h @ ''/'') ''http://''"
    and "\<not> startsWith (h @ ''/'') ''https://''"
    and "\<not> startsWith (h @ ''/'') ''www.''"
  using assms unfolding bare_host_def startsWith_snoc endsWith_slash by auto

lemma strip_prefixes_shape:
  assumes "p \<in> {'''', ''http://'', ''https://''}" and "w \<in> {'''', ''www.''}"
    and "t \<in> {'''', ''/''}" and "bare_host h"
  shows "strip_prefixes (p @ w @ h @ t) = h @ t"
  using assms bare_host_slash[OF assms(4)]
  by (auto simp add: strip_prefixes_def strip_www_def strip_scheme_def bare_host_def)

lemma strip_trailing_slash_bare:
  assumes "t \<in> {'''', ''/''}" and "bare_host h"
  shows "strip_trailing_slash (h @ t) = h"
  using assms by (auto simp: strip_trailing_slash_def endsWith_slash bare_host_def)

lemma well_normalized_bare:
  assumes "bare_host h"
  shows "well_normalized (''https://'' @ h)"
  using assms
  by (auto simp: well_normalized_def www_after_scheme_def bare_host_def endsWith_slash)

text \<open>The two examples of the specification.\<close>

lemma normalizeURL_examples:
  "normalizeURL ''www.example.com/'' = ''https://example.com''"
  "normalizeURL ''http://example.com'' = ''https://example.com''"
  by (simp_all add: normalizeURL_defs)

text \<open>
  For every base URL the result is protocol-qualified, and it starts with \<open>https://\<close>
  unless a second \<open>http://\<close> is left in front after the stripping.
\<close>

lemma normalizeURL_protocol_qualified:
  "startsWith (normalizeURL url) ''https://'' \<or> startsWith (normalizeURL url) ''http://''"
  by (simp add: normalizeURL_def Let_def)

lemma schemes_exclusive: "startsWith s ''http://'' \<Longrightarrow> \<not> startsWith s ''https://''"
  by (auto simp: startsWith_def prefix_def)

lemma normalizeURL_https_iff:
  "startsWith (normalizeURL url) ''https://'' \<longleftrightarrow>
   \<not> startsWith (strip_trailing_slash (strip_prefixes url)) ''http://''"
  using schemes_exclusive[of "strip_trailing_slash (strip_prefixes url)"]
  by (auto simp add: normalizeURL_def Let_def)

text \<open>
  C1, as amended. For every base URL made of an optional scheme (\<open>http://\<close> or
  \<open>https://\<close>), an optional \<open>www.\<close>, a bare host part (not empty, not itself starting
  with a scheme or with \<open>www.\<close>, not ending with a slash) and an optional single trailing
  slash, \<open>normalizeURL\<close> returns \<open>https://\<close> followed by exactly that host part: the
  result starts with \<open>https://\<close>, does not end with \<open>/\<close> and has no \<open>www.\<close> right after
  the scheme, whichever combination of scheme, \<open>www.\<close> and trailing slash the input had.
\<close>

theorem normalizeURL_canonical:
  assumes "p \<in> {'''', ''http://'', ''https://''}" and "w \<in> {'''', ''www.''}"
    and "t \<in> {'''', ''/''}" and "bare_host h"
  shows "normalizeURL (p @ w @ h @ t) = ''https://'' @ h \<and>
         well_normalized (normalizeURL (p @ w @ h @ t))"
proof -
  have "strip_trailing_slash (strip_prefixes (p @ w @ h @ t)) = h"
    using strip_prefixes_shape[OF assms] strip_trailing_slash_bare[OF assms(3,4)] by simp
  then have "normalizeURL (p @ w @ h @ t) = ''https://'' @ h"
    using assms(4) by (simp add: normalizeURL_def bare_host_def)
  then show ?thesis
    using well_normalized_bare[OF assms(4)] by simp
qed

theorem normalizeURL_canonical_witness:
  "bare_host ''example.com'' \<and>
   normalizeURL ''http://www.example.com/'' = ''https://example.com'' \<and>
   well_normalized (normalizeURL ''http://www.example.com/'')"
proof -
  have host: "bare_host ''example.com''"
    by (simp add: bare_host_def endsWith_slash)
  have "normalizeURL (''http://'' @ ''www.'' @ ''example.com'' @ ''/'') =
          ''https://'' @ ''example.com'' \<and>
        well_normalized (normalizeURL (''http://'' @ ''www.'' @ ''example.com'' @ ''/''))"
    by (rule normalizeURL_canonical) (simp_all add: host)
  then show ?thesis
    using host by auto
qed

text \<open>
  C1 as stated fails: only one trailing slash is removed, so a base URL that ends with
  two slashes keeps one.
\<close>

theorem normalizeURL_double_slash_counterexample:
  "normalizeURL ''example.com//'' = ''https://example.com/'' \<and>
   \<not> well_normalized (normalizeURL ''example.com//'')"
  by (simp add: normalizeURL_defs well_normalized_def)

text \<open>
  The other two properties fail in the same way, each prefix being removed once: a
  second \<open>www.\<close> stays, a second scheme stays (and keeps \<open>http://\<close>), and the empty base
  URL becomes the bare scheme.
\<close>

lemma normalizeURL_repeated_prefixes:
  "normalizeURL ''www.www.example.com'' = ''https://www.example.com''"
  "normalizeURL ''http://http://example.com'' = ''http://example.com''"
  "normalizeURL [] = ''https://''"
  by (simp_all add: normalizeURL_defs)

section \<open>Properties of the configuration defaults\<close>

lemma number_or_truthy: "\<not> falsy_number x \<Longrightarrow> number_or (Some x) d = x"
  by (simp add: number_or_def)

lemma string_or_nonempty: "x \<noteq> [] \<Longrightarrow> string_or (Some x) d = x"
  by (simp add: string_or_def)

text \<open>
  C10. A timeout or retry count that is absent or falsy (\<open>0\<close>, \<open>NaN\<close>) is replaced by
  30000 and 3, an absent or empty user name or password by the empty string; the
  configuration the client keeps never has a zero timeout or zero retries.
\<close>

theorem constructor_config_defaults:
  "(timeout config \<in> {None, Some (Finite 0), Some NaN} \<longrightarrow>
      config_timeout (constructor_config config) = Finite 30000) \<and>
   (retries config \<in> {None, Some (Finite 0), Some NaN} \<longrightarrow>
      config_retries (constructor_config config) = Finite 3) \<and>
   (username config \<in> {None, Some []} \<longrightarrow> config_username (constructor_config config) = []) \<and>
   (password config \<in> {None, Some []} \<longrightarrow> config_password (constructor_config config) = []) \<and>
   config_timeout (constructor_config config) \<noteq> Finite 0 \<and>
   config_retries (constructor_config config) \<noteq> Finite 0"
  by (auto simp: constructor_config_def number_or_def string_or_def falsy_number_def
      split: option.splits)

theorem constructor_config_defaults_witness:
  "config_timeout (constructor_config
      \<lparr> baseURL = ''example.com'', username = None, password = Some [],
        timeout = Some (Finite 0), retries = Some (Finite 0) \<rparr>) = Finite 30000 \<and>
   config_retries (constructor_config
      \<lparr> baseURL = ''example.com'', username = None, password = Some [],
        timeout = Some (Finite 0), retries = Some (Finite 0) \<rparr>) = Finite 3 \<and>
   config_username (constructor_config
      \<lparr> baseURL = ''example.com'', username = None, password = Some [],
        timeout = Some (Finite 0), retries = Some (Finite 0) \<rparr>) = [] \<and>
   config_password (constructor_config
      \<lparr> baseURL = ''example.com'', username = None, password = Some [],
        timeout = Some (Finite 0), retries = Some (Finite 0) \<rparr>) = []"
  using constructor_config_defaults[of
      "\<lparr> baseURL = ''example.com'', username = None, password = Some [],
        timeout = Some (Finite 0), retries = Some (Finite 0) \<rparr>"]
  by simp

text \<open>Values that are given and truthy are kept.\<close>

lemma constructor_config_given:
  assumes "timeout config = Some t" and "\<not> falsy_number t"
    and "retries config = Some n" and "\<not> falsy_number n"
  shows "config_timeout (constructor_config config) = t"
    and "config_retries (constructor_config config) = n"
  using assms by (simp_all add: constructor_config_def number_or_truthy)


section \<open>Properties of the error classifier\<close>

lemma opt_chain_simps [simp]:
  "opt_chain JUndefined k = JUndefined"
  "opt_chain JNull k = JUndefined"
  "opt_chain (JObj kvs) k = (case map_of kvs k of None \<Rightarrow> JUndefined | Some v \<Rightarrow> v)"
  "opt_chain (JBool b) k = JUndefined"
  "opt_chain (JNum n) k = JUndefined"
  "opt_chain (JStr s) k = JUndefined"
  "opt_chain (JArr xs) k = JUndefined"
  by (simp_all add: opt_chain_def)

lemma toStringJS_JStr [simp]: "toStringJS render (JStr s) = s"
  by (simp add: toStringJS_def)

lemma status_value_eq [simp]: "status_value n = JNum (Finite (numeral k)) \<longleftrightarrow> n = numeral k"
  by (simp add: status_value_def)

lemma status_value_defined [simp]: "status_value n \<noteq> JUndefined"
  by (simp add: status_value_def)


lemma handleError_response:
  "err_response error = Some r \<Longrightarrow>
   handleError render error =
     classifyResponse render (status_value (status r)) (data r) (err_message error)"
  by (simp add: handleError_def)

lemma classifyResponse_status:
  "statusCode (classifyResponse render (status_value n) d m) = status_value n"
  "response (classifyResponse render (status_value n) d m) = Body d"
  "message (classifyResponse render (status_value n) d m) =
     (if n = 400 then ''Invalid request: '' @ toStringJS render (originalMessage m d)
      else if n = 401 then ''Authentication failed. Check your credentials.''
      else if n = 403 then ''Access forbidden. You do not have permission.''
      else if n = 404 then ''Resource not found. Check the endpoint URL.''
      else if n = 429 then ''Rate limit exceeded. Please try again later.''
      else if n \<in> {500, 502, 503, 504} then ''Server error. Please try again later.''
      else toStringJS render (originalMessage m d))"
  by (simp_all add: classifyResponse_def statusMessage_def Let_def)



text \<open>
  \<open>handleError\<close> handed one of its own results. An error without a truthy raw value is
  rebuilt from its message alone, and so is an error whose body has neither a \<open>status\<close>
  nor a \<open>data\<close> property: the statusCode and the body are gone, the message stays.
\<close>

lemma handleError_CDSError_new:
  "handleError_CDSError render request_prop (new_CDSError m) = new_CDSError m"
  by (simp add: handleError_CDSError_def new_CDSError_def)

lemma handleError_CDSError_plain_body:
  assumes "response c = Body b"
    and "opt_chain b ''status'' = JUndefined" and "opt_chain b ''data'' = JUndefined"
  shows "handleError_CDSError render request_prop c = new_CDSError (message c)"
  using assms
  by (simp add: handleError_CDSError_def classifyResponse_def statusMessage_def
      originalMessage_def js_or_def new_CDSError_def)

section \<open>Properties of the retry condition\<close>


lemma retryCondition_library: "lib error \<Longrightarrow> retryCondition lib error"
  by (simp add: retryCondition_def)

section \<open>Properties of the axios instance\<close>

lemma sends_append [simp]: "sends (a @ b) = sends a @ sends b"
  by (induction a rule: sends.induct) simp_all

lemma waits_append [simp]: "waits (a @ b) = waits a @ waits b"
  by (induction a rule: waits.induct) simp_all

text \<open>The three ways one run of a request goes on after its attempt.\<close>

lemma issue_response:
  "env_server env (tr @ [Sent req]) = Inr r \<Longrightarrow> issue env n req tr = (Inr r, tr @ [Sent req])"
  by (subst issue.simps) simp

lemma issue_not_retried:
  "env_server env (tr @ [Sent req]) = Inl e \<Longrightarrow>
   \<not> (n < env_retries env \<and> retryCondition (env_lib env) e) \<Longrightarrow>
   issue env n req tr = (Inl (handleError (env_render env) e), tr @ [Sent req])"
  by (subst issue.simps) auto

lemma issue_retried:
  "env_server env (tr @ [Sent req]) = Inl e \<Longrightarrow> n < env_retries env \<Longrightarrow>
   retryCondition (env_lib env) e \<Longrightarrow>
   issue env n req tr =
     (case issue env (Suc n) req
             (tr @ [Sent req, Warned (Suc n) (request_url req),
                Waited (exponentialDelay (env_base env) (env_jitter env) (Suc n))]) of
        (Inr r, tr') \<Rightarrow> (Inr r, tr')
      | (Inl c, tr') \<Rightarrow>
          (Inl (handleError_CDSError (env_render env) (env_request_prop env) c), tr'))"
  by (subst issue.simps) simp







text \<open>
  The error of a retried call. When every attempt fails with the same retryable error,
  whose response has a body without \<open>status\<close> and \<open>data\<close> properties, and at least one
  retry is made, the error that reaches the caller is rebuilt from the message alone:
  it has no statusCode and no body, whatever the status of the response was.
\<close>

lemma issue_retried_forgets_status:
  "\<forall>t. env_server env t = Inl e \<Longrightarrow> retryCondition (env_lib env) e \<Longrightarrow>
   err_response e = Some r \<Longrightarrow>
   opt_chain (data r) ''status'' = JUndefined \<Longrightarrow> opt_chain (data r) ''data'' = JUndefined \<Longrightarrow>
   n < env_retries env \<Longrightarrow>
   fst (issue env n req tr) = Inl (new_CDSError (message (handleError (env_render env) e)))"
proof (induction env n req tr rule: issue.induct)
  case (1 env n req tr)
  let ?tr = "tr @ [Sent req, Warned (Suc n) (request_url req),
      Waited (exponentialDelay (env_base env) (env_jitter env) (Suc n))]"
  let ?c = "handleError (env_render env) e"
  have here: "env_server env (tr @ [Sent req]) = Inl e"
    using "1.prems"(1) by simp
  have step: "issue env n req tr =
      (case issue env (Suc n) req ?tr of
         (Inr r, tr') \<Rightarrow> (Inr r, tr')
       | (Inl c, tr') \<Rightarrow>
           (Inl (handleError_CDSError (env_render env) (env_request_prop env) c), tr'))"
    using here "1.prems"(6,2) by (rule issue_retried)
  have inner: "fst (issue env (Suc n) req ?tr) = Inl ?c \<or>
      fst (issue env (Suc n) req ?tr) = Inl (new_CDSError (message ?c))"
  proof (cases "Suc n < env_retries env")
    case True
    have "fst (issue env (Suc n) req ?tr) = Inl (new_CDSError (message ?c))"
      using "1.IH"[OF here _ "1.prems"(1-5) True] "1.prems"(2,6) by simp
    then show ?thesis
      by simp
  next
    case False
    have "env_server env (?tr @ [Sent req]) = Inl e"
      using "1.prems"(1) by simp
    then have "issue env (Suc n) req ?tr = (Inl ?c, ?tr @ [Sent req])"
      using False by (intro issue_not_retried) auto
    then show ?thesis
      by simp
  qed
  have body: "response ?c = Body (data r)"
    using "1.prems"(3) by (simp add: handleError_response classifyResponse_status)
  have "handleError_CDSError (env_render env) (env_request_prop env) ?c =
      new_CDSError (message ?c)"
    using body "1.prems"(4,5) by (rule handleError_CDSError_plain_body)
  moreover have "handleError_CDSError (env_render env) (env_request_prop env)
      (new_CDSError (message ?c)) = new_CDSError (message ?c)"
    by (rule handleError_CDSError_new)
  ultimately show ?case
    using inner unfolding step by (auto split: prod.splits sum.splits)
qed

lemmas run_defs =
  axios_client_def fixed_outcome_def issue.simps retryCondition_def retryableStatuses_def
  handleError_def handleError_CDSError_def classifyResponse_def statusMessage_def
  originalMessage_def js_or_def new_CDSError_def exponentialDelay_def status_value_def






text \<open>
  C5 fails on the code for the statuses that the client retries. The distance service
  answers every attempt of \<open>calculateDistance\<close> with 503 and the body
  \<open>{"error": "maintenance"}\<close>: after the three retries the error that reaches the caller
  has the fixed message of the table, but no statusCode (and no body), where C5 asks for
  that message together with the statusCode 503. Each run that asked for a retry hands
  the \<open>CDSError\<close> of the run inside it to \<open>handleError\<close> again, which reads the body where it
  expects a response.
\<close>

theorem calculateDistance_503_statusCode_lost:
  "calculateDistance
      (axios_client
        (fixed_outcome (Inl \<lparr> err_response = Some \<lparr> status = 503,
              data = JObj [(''error'', JStr ''maintenance'')] \<rparr>,
            err_request = Some (), err_message = ''Request failed with status code 503'' \<rparr>)))
      (Some ''Paris'') (Some ''Berlin'') []
     = (Inl (Thrown_CDSError
          \<lparr> message = ''Server error. Please try again later.'', statusCode = JUndefined,
            response = Body JUndefined \<rparr>),
        [Sent (POST ''/distance'' (JObj [(''City1'', JStr ''Paris''), (''City2'', JStr ''Berlin'')])),
         Warned 1 ''/distance'', Waited 100,
         Sent (POST ''/distance'' (JObj [(''City1'', JStr ''Paris''), (''City2'', JStr ''Berlin'')])),
         Warned 2 ''/distance'', Waited 200,
         Sent (POST ''/distance'' (JObj [(''City1'', JStr ''Paris''), (''City2'', JStr ''Berlin'')])),
         Warned 3 ''/distance'', Waited 400,
         Sent (POST ''/distance'' (JObj [(''City1'', JStr ''Paris''), (''City2'', JStr ''Berlin'')]))])"
  by (simp add: calculateDistance_def run_defs)

text \<open>
  The message of a retried error can also be taken from what the body holds: a 503 whose
  body is \<open>{"status": 404, "data": {}}\<close> reaches the caller with the message of a 404.
\<close>

lemma retried_503_reclassified:
  "fst (axios_client
      (fixed_outcome (Inl \<lparr> err_response = Some \<lparr> status = 503,
            data = JObj [(''status'', JNum (Finite 404)), (''data'', JObj [])] \<rparr>,
          err_request = Some (), err_message = ''Request failed with status code 503'' \<rparr>))
      (GET ''/version'' []) [])
     = Inl \<lparr> message = ''Resource not found. Check the endpoint URL.'',
             statusCode = JUndefined, response = Body JUndefined \<rparr>"
  by (simp add: run_defs)

section \<open>Properties of the operations\<close>

text \<open>
  C7. A query that is absent, empty or shorter than two code units is rejected with the
  \<open>CDSError\<close> \<open>Query must be at least 2 characters long\<close>, whatever the client is, and the
  outside state is the one the operation was given: no request was issued.
\<close>

theorem getSuggestions_short_query_rejected:
  assumes "query = None \<or> (\<exists>q. query = Some q \<and> length q < 2)"
  shows "getSuggestions client query w =
         (Inl (Thrown_CDSError (new_CDSError ''Query must be at least 2 characters long'')), w)"
  using assms by (auto simp: getSuggestions_def)

theorem getSuggestions_short_query_rejected_witness:
  "getSuggestions
      (axios_client (fixed_outcome (Inr \<lparr> status = 200, data = JArr [] \<rparr> :: unit AxiosError + http_response)))
      (Some ''a'') []
     = (Inl (Thrown_CDSError (new_CDSError ''Query must be at least 2 characters long'')), []) \<and>
   getSuggestions
      (axios_client (fixed_outcome (Inr \<lparr> status = 200, data = JArr [] \<rparr> :: unit AxiosError + http_response)))
      None []
     = (Inl (Thrown_CDSError (new_CDSError ''Query must be at least 2 characters long'')), [])"
  using getSuggestions_short_query_rejected[of "Some ''a''"
      "axios_client (fixed_outcome (Inr \<lparr> status = 200, data = JArr [] \<rparr> :: unit AxiosError + http_response))" "[]"]
    getSuggestions_short_query_rejected[of None
      "axios_client (fixed_outcome (Inr \<lparr> status = 200, data = JArr [] \<rparr> :: unit AxiosError + http_response))" "[]"]
  by simp

text \<open>A query of two code units or more does reach the client, with one request.\<close>

lemma getSuggestions_long_query_sends:
  assumes "2 \<le> length q"
  shows "snd (getSuggestions client (Some q) w) = snd (client (GET ''/suggestions'' [(''q'', q)]) w)"
  using assms
  by (auto simp: getSuggestions_def split: prod.splits sum.splits option.splits)

lemma getSuggestions_logged:
  "snd (getSuggestions (axios_client (fixed_outcome (Inr \<lparr> status = 200, data = JArr [] \<rparr>)))
          (Some ''pa'') []) =
     [Sent (GET ''/suggestions'' [(''q'', ''pa'')])]"
  by (simp add: getSuggestions_long_query_sends axios_client_def fixed_outcome_def issue_response)

text \<open>
  C8. When either city identifier is empty (or absent), \<open>calculateDistance\<close> is rejected
  with the \<open>CDSError\<close> \<open>Both city IDs are required\<close>, whatever the client is, and the
  outside state is the one the operation was given: no request was issued.
\<close>

theorem calculateDistance_empty_id_rejected:
  assumes "city1Id \<in> {None, Some []} \<or> city2Id \<in> {None, Some []}"
  shows "calculateDistance client city1Id city2Id w =
         (Inl (Thrown_CDSError (new_CDSError ''Both city IDs are required'')), w)"
  using assms by (auto simp: calculateDistance_def split: option.splits)

theorem calculateDistance_empty_id_rejected_witness:
  "calculateDistance
      (axios_client (fixed_outcome
        (Inr \<lparr> status = 200, data = JNum (Finite 1234.5) \<rparr> :: unit AxiosError + http_response)))
      (Some []) (Some ''x'') []
     = (Inl (Thrown_CDSError (new_CDSError ''Both city IDs are required'')), [])"
  using calculateDistance_empty_id_rejected[of "Some []" "Some ''x''"
      "axios_client (fixed_outcome
        (Inr \<lparr> status = 200, data = JNum (Finite 1234.5) \<rparr> :: unit AxiosError + http_response))" "[]"]
  by simp

text \<open>Two non-empty identifiers do reach the client, with one request.\<close>

lemma calculateDistance_sends:
  assumes "c1 \<noteq> []" and "c2 \<noteq> []"
  shows "snd (calculateDistance client (Some c1) (Some c2) w) =
         snd (client (POST ''/distance'' (JObj [(''City1'', JStr c1), (''City2'', JStr c2)])) w)"
  using assms by (auto simp: calculateDistance_def split: prod.splits sum.splits)

lemma calculateDistance_response:
  assumes "c1 \<noteq> []" and "c2 \<noteq> []"
    and "client (POST ''/distance'' (JObj [(''City1'', JStr c1), (''City2'', JStr c2)])) w = (Inr r, w')"
  shows "calculateDistance client (Some c1) (Some c2) w = (unwrapDistance (data r), w')"
  using assms by (simp add: calculateDistance_def)

text \<open>
  The value returned for a 2xx body with truthy fields is the one C2 names: the
  \<open>distanceKm\<close> field, else the \<open>data\<close> field, else the body; so for the three bodies of
  the specification.
\<close>

lemma unwrapDistance_truthy:
  "get_prop d ''distanceKm'' = Some a \<Longrightarrow> truthy a \<Longrightarrow> unwrapDistance d = Inr a"
  "get_prop d ''distanceKm'' = Some JUndefined \<Longrightarrow> get_prop d ''data'' = Some b \<Longrightarrow> truthy b \<Longrightarrow>
   unwrapDistance d = Inr b"
  "get_prop d ''distanceKm'' = Some JUndefined \<Longrightarrow> get_prop d ''data'' = Some JUndefined \<Longrightarrow>
   unwrapDistance d = Inr d"
  by (simp_all add: unwrapDistance_def js_or_def)

lemma unwrapDistance_examples:
  "unwrapDistance (JObj [(''distanceKm'', JNum (Finite 1234.5))]) = Inr (JNum (Finite 1234.5))"
  "unwrapDistance (JObj [(''data'', JNum (Finite 1234.5))]) = Inr (JNum (Finite 1234.5))"
  "unwrapDistance (JNum (Finite 1234.5)) = Inr (JNum (Finite 1234.5))"
  by (simp_all add: unwrapDistance_def js_or_def falsy_number_def)

text \<open>
  C2 fails on the code for a field that is present and falsy. The distance between a
  city and itself is 0: for the body \<open>{"distanceKm": 0}\<close> the check \<open>data.distanceKm ||\<close>
  passes the field over, and the operation returns the whole body object where C2 (and
  the declared result type \<open>number\<close>) asks for the field's value 0.
\<close>

theorem calculateDistance_zero_distance:
  "calculateDistance
      (axios_client
        (fixed_outcome (Inr \<lparr> status = 200, data = JObj [(''distanceKm'', JNum (Finite 0))] \<rparr>)))
      (Some ''Paris'') (Some ''Paris'') []
     = (Inr (JObj [(''distanceKm'', JNum (Finite 0))]),
        [Sent (POST ''/distance'' (JObj [(''City1'', JStr ''Paris''), (''City2'', JStr ''Paris'')]))])"
  by (simp add: calculateDistance_def axios_client_def fixed_outcome_def issue_response
      unwrapDistance_def js_or_def falsy_number_def)

lemma unwrapDistance_falsy_fields:
  "unwrapDistance (JObj [(''data'', JNum (Finite 0))]) = Inr (JObj [(''data'', JNum (Finite 0))])"
  "unwrapDistance (JObj [(''distanceKm'', JNum (Finite 0)), (''data'', JNum (Finite 7))]) =
     Inr (JNum (Finite 7))"
  "unwrapDistance JNull = Inl Thrown_TypeError"
  by (simp_all add: unwrapDistance_def js_or_def falsy_number_def)

text \<open>
  C6. \<open>healthCheck\<close> always returns a boolean and never throws: \<open>true\<close> when the client's
  call ends with a (2xx) response, \<open>false\<close> when it ends with any error, which is
  absorbed.
\<close>

theorem healthCheck_never_raises:
  "(\<exists>b. fst (healthCheck client w) = Inr b) \<and>
   (\<forall>r w'. client (GET ''/health_check'' []) w = (Inr r, w') \<longrightarrow>
            healthCheck client w = (Inr True, w')) \<and>
   (\<forall>e w'. client (GET ''/health_check'' []) w = (Inl e, w') \<longrightarrow>
            healthCheck client w = (Inr False, w'))"
  by (auto simp: healthCheck_def split: prod.splits sum.splits)

theorem healthCheck_never_raises_witness:
  "fst (healthCheck (axios_client (fixed_outcome
          (Inl \<lparr> err_response = None, err_request = Some (), err_message = ''Network Error'' \<rparr>))) [])
     = Inr False \<and>
   fst (healthCheck (axios_client (fixed_outcome
          (Inl \<lparr> err_response = Some \<lparr> status = 500, data = JNull \<rparr>, err_request = Some (),
                 err_message = ''Request failed with status code 500'' \<rparr>))) [])
     = Inr False \<and>
   fst (healthCheck (axios_client (fixed_outcome
          (Inl \<lparr> err_response = Some \<lparr> status = 404, data = JNull \<rparr>, err_request = Some (),
                 err_message = ''Request failed with status code 404'' \<rparr>))) [])
     = Inr False \<and>
   fst (healthCheck (axios_client (fixed_outcome
          (Inr \<lparr> status = 204, data = JStr [] \<rparr> :: unit AxiosError + http_response))) [])
     = Inr True"
  using healthCheck_never_raises[of "axios_client (fixed_outcome
          (Inl \<lparr> err_response = None, err_request = Some (), err_message = ''Network Error'' \<rparr>))" "[]"]
    healthCheck_never_raises[of "axios_client (fixed_outcome
          (Inl \<lparr> err_response = Some \<lparr> status = 500, data = JNull \<rparr>, err_request = Some (),
                 err_message = ''Request failed with status code 500'' \<rparr>))" "[]"]
    healthCheck_never_raises[of "axios_client (fixed_outcome
          (Inl \<lparr> err_response = Some \<lparr> status = 404, data = JNull \<rparr>, err_request = Some (),
                 err_message = ''Request failed with status code 404'' \<rparr>))" "[]"]
    healthCheck_never_raises[of "axios_client (fixed_outcome
          (Inr \<lparr> status = 204, data = JStr [] \<rparr> :: unit AxiosError + http_response))" "[]"]
  by (simp add: healthCheck_def run_defs)

end
